theory Spec2Isabelle
  imports Complex_Main
begin

section \<open>The search worker of bookvalue.py\<close>

text \<open>
  The worker drives one browser session, reads two timed waits per page and draws random
  pauses. Everything it does to the outside is recorded, in order, as an event: the three
  signals of the class (\<open>log_message\<close>, \<open>update_result\<close>, \<open>search_complete\<close>), the page
  loads (\<open>driver.get\<close>), the pauses (\<open>time.sleep\<close>) and \<open>processEvents\<close>.

  Strings are byte lists. A pause is a rational number of seconds where Python has a float,
  and the log line that prints a pause with two decimals is the event \<open>Log_sleeping\<close>
  carrying the pause itself: the rendering \<open>{delay:.2f}\<close> is not modelled.
\<close>

datatype event =
    Log_message string
  | Log_sleeping rat
  | Update_result "string list"
  | Search_complete
  | Driver_get string
  | Time_sleep rat
  | Process_events

text \<open>
  What the browser shows after a page load, as far as the worker looks at it:
  whether \<open>div.aggregates\<close> is present within the 19 second wait, and for each XPath
  the text of the element if it becomes visible within the 1 second wait
  (\<open>None\<close>: the wait raises \<open>TimeoutException\<close>).
\<close>

record page =
  aggregates :: bool
  metric :: "string \<Rightarrow> string option"

text \<open>
  The surroundings the worker cannot control: the page the browser shows for the
  \<open>n\<close>-th load of a URL, the \<open>n\<close>-th sample of \<open>random.random()\<close>, and the value of
  the flag \<open>_running\<close> when the loop tests it at the top of iteration \<open>n\<close>
  (the flag is cleared by \<open>stop\<close> from the controlling thread).
\<close>

record env =
  browser :: "nat \<Rightarrow> string \<Rightarrow> page"
  rng :: "nat \<Rightarrow> rat"
  running :: "nat \<Rightarrow> bool"

record state =
  loaded :: nat
  drawn :: nat
  current :: page
  trace :: "event list"

type_synonym entry = "string \<times> string \<times> string"

definition emit :: "event \<Rightarrow> state \<Rightarrow> state" where
  "emit ev st = st\<lparr>trace := trace st @ [ev]\<rparr>"

definition log_message :: "string \<Rightarrow> state \<Rightarrow> state" where
  "log_message msg st = emit (Log_message msg) st"

text \<open>\<open>random.uniform(a, b)\<close> is \<open>a + (b - a) * random()\<close>; it consumes one sample.\<close>

definition uniform :: "env \<Rightarrow> rat \<Rightarrow> rat \<Rightarrow> state \<Rightarrow> rat \<times> state" where
  "uniform e a b st = (a + (b - a) * rng e (drawn st), st\<lparr>drawn := Suc (drawn st)\<rparr>)"

definition driver_get :: "env \<Rightarrow> string \<Rightarrow> state \<Rightarrow> state" where
  "driver_get e url st =
     emit (Driver_get url)
       (st\<lparr>loaded := Suc (loaded st), current := browser e (loaded st) url\<rparr>)"

text \<open>\<open>str.strip()\<close> on ASCII text: the characters \<open>str.isspace\<close> accepts below 128.\<close>

definition isspace :: "char \<Rightarrow> bool" where
  "isspace c = (c \<in> set [CHR 0x09, CHR 0x0A, CHR 0x0B, CHR 0x0C, CHR 0x0D,
                          CHR 0x1C, CHR 0x1D, CHR 0x1E, CHR 0x1F, CHR 0x20])"

definition strip :: "string \<Rightarrow> string" where
  "strip s = rev (dropWhile isspace (rev (dropWhile isspace s)))"

text \<open>Python's \<open>any\<close> on a list of strings: some string is not empty.\<close>

fun any_py :: "string list \<Rightarrow> bool" where
  "any_py [] = False"
| "any_py (s # ss) = (s \<noteq> [] \<or> any_py ss)"

definition get_aggregate_value :: "env \<Rightarrow> string \<Rightarrow> state \<Rightarrow> string \<times> state" where
  "get_aggregate_value e xpath st =
     (case metric (current st) xpath of
        Some text \<Rightarrow> (strip text, st)
      | None \<Rightarrow>
          (let (delay, st1) = uniform e 3 9 st;
               st2 = emit (Log_sleeping delay) st1;
               st3 = emit (Time_sleep delay) st2;
               st4 = log_message (''Could not find element with xpath: '' @ xpath
                                   @ ''. Returning empty value.'') st3
           in ([], st4)))"

definition search_url :: "string \<Rightarrow> string" where
  "search_url search_query =
     ''https://www.ebay.com/sh/research?marketplace=EBAY-US''
     @ ''&keywords='' @ search_query @ ''&dayRange=365&endDate=1724798549762''
     @ ''&startDate=1693262549762&categoryId=0&offset=0&limit=50''
     @ ''&tabName=SOLD&tz=America%2FNew_York''"

definition xpath_avg_price :: string where
  "xpath_avg_price = ''//section[contains(., 'Avg sold price')]/div[@class='metric-value']''"

definition xpath_price_range :: string where
  "xpath_price_range = ''//section[contains(., 'Sold price range')]/div[@class='metric-value']''"

definition xpath_avg_shipping :: string where
  "xpath_avg_shipping = ''//section[contains(., 'Avg shipping')]/div[@class='metric-value']''"

definition xpath_total_sellers :: string where
  "xpath_total_sellers = ''//section[contains(., 'Total sellers')]/div[@class='metric-value']''"

text \<open>
  \<open>Worker.perform_search\<close>. The \<open>try\<close> block has two ways out through
  \<open>TimeoutException\<close>: the wait for the container (the field lookups catch their own).
\<close>

definition perform_search ::
  "env \<Rightarrow> string \<Rightarrow> string \<Rightarrow> string \<Rightarrow> string \<Rightarrow> state \<Rightarrow> bool \<times> state" where
  "perform_search e search_query title author isbn st0 =
     (let url = search_url search_query;
          st1 = driver_get e url st0;
          st2 = log_message (''Navigating to URL: '' @ url) st1
      in if \<not> aggregates (current st2)
         then (False, log_message (''No results found for '' @ search_query @ ''. Skipping.'') st2)
         else
           (let st3 = log_message ''Aggregates section found.'' st2;
                (avg_price, st4) = get_aggregate_value e xpath_avg_price st3;
                (price_range, st5) = get_aggregate_value e xpath_price_range st4;
                (avg_shipping, st6) = get_aggregate_value e xpath_avg_shipping st5;
                (total_sellers, st7) = get_aggregate_value e xpath_total_sellers st6;
                st8 = log_message (''Data extracted: Avg Price: '' @ avg_price
                        @ '', Price Range: '' @ price_range
                        @ '', Avg Shipping: '' @ avg_shipping
                        @ '', Total Sellers: '' @ total_sellers) st7
            in if \<not> any_py [avg_price, price_range, avg_shipping, total_sellers]
               then (False, log_message (''No valid data found for '' @ search_query
                                          @ ''. Skipping.'') st8)
               else
                 (let st9 = log_message (''Found results for '' @ title @ '' by '' @ author
                                          @ '' (ISBN: '' @ isbn @ '')'') st8;
                      st10 = emit (Update_result [title, author, isbn, avg_price, price_range,
                                                  avg_shipping, total_sellers]) st9
                  in (True, st10))))"

text \<open>
  The body of the \<open>for\<close> loop of \<open>Worker.run\<close> below the cancellation test
  (lines 85 to 102): one entry, unpacked into title, author and ISBN.
  An entry is a triple of strings, as the docstrings of the class say.
\<close>

definition run_entry :: "env \<Rightarrow> entry \<Rightarrow> state \<Rightarrow> state" where
  "run_entry e entry st0 =
     (case entry of (title, author, isbn) \<Rightarrow>
        if title = [] \<and> author = [] \<and> isbn = []
        then log_message ''Skipping empty line.'' st0
        else
          (let st1 = log_message (''Processing: '' @ title @ '', '' @ author
                                   @ '', ISBN: '' @ isbn) st0;
               search_query = (if isbn \<noteq> [] then isbn else title @ '' '' @ author);
               (found, st2) = perform_search e search_query title author isbn st1;
               st3 = (if \<not> found
                      then snd (perform_search e (title @ '' '' @ author) title author isbn st2)
                      else st2);
               (delay, st4) = uniform e 15 40 st3;
               st5 = emit (Log_sleeping delay) st4;
               st6 = emit (Time_sleep delay) st5
           in emit Process_events st6))"

text \<open>
  The loop of \<open>Worker.run\<close>: \<open>i\<close> counts the iterations, so that \<open>running e i\<close> is
  what the test \<open>if not self._running\<close> reads at the top of iteration \<open>i\<close>.
\<close>

fun run_loop :: "env \<Rightarrow> nat \<Rightarrow> entry list \<Rightarrow> state \<Rightarrow> state" where
  "run_loop e i [] st = st"
| "run_loop e i (entry # rest) st =
     (if \<not> running e i then log_message ''Search cancelled.'' st
      else run_loop e (Suc i) rest (run_entry e entry st))"

definition run :: "env \<Rightarrow> entry list \<Rightarrow> state \<Rightarrow> state" where
  "run e data st = emit Search_complete (run_loop e 0 data st)"


section \<open>The application shell: loading and exporting spreadsheets\<close>

text \<open>
  The spreadsheet library is outside the repository. A table is its column names and its
  rows of cells, a cell being a text or missing (\<open>NaN\<close>); the library's readers give the
  columns distinct names and every row one cell per column. What \<open>pd.read_excel\<close> does
  for a path is a parameter of \<open>process_file\<close>: it raises or returns a table.

  An exception is named by the first \<open>except\<close> clause of \<open>process_file\<close> that its class
  matches (so \<open>EmptyDataError\<close>, a subclass of \<open>ValueError\<close>, is taken by its own clause),
  \<open>OtherException\<close> being an instance of \<open>Exception\<close> that matches none of the named
  ones; the string is \<open>str(e)\<close> where the handler prints it.
\<close>

datatype exn =
    FileNotFoundError
  | EmptyDataError
  | ValueError
  | KeyError string
  | AttributeError string
  | OtherException string

record dataframe =
  columns :: "string list"
  cells :: "string option list list"

record app =
  data :: "string list list"
  log_window :: "string list"
  result_table :: "string option list list"

definition log_text :: "string \<Rightarrow> app \<Rightarrow> app" where
  "log_text message ap = ap\<lparr>log_window := log_window ap @ [message]\<rparr>"

text \<open>\<open>str(n)\<close> for the row count of the log line.\<close>

fun str_nat :: "nat \<Rightarrow> string" where
  "str_nat n =
     (if n < 10 then [''0123456789'' ! n]
      else str_nat (n div 10) @ [''0123456789'' ! (n mod 10)])"

declare str_nat.simps [simp del]

fun index_of :: "string \<Rightarrow> string list \<Rightarrow> nat" where
  "index_of name [] = 0"
| "index_of name (c # cs) = (if c = name then 0 else Suc (index_of name cs))"

text \<open>\<open>df[names]\<close>: the named columns, in the order asked for.\<close>

definition select_columns :: "string list \<Rightarrow> dataframe \<Rightarrow> dataframe" where
  "select_columns names df =
     \<lparr>columns = names,
      cells = map (\<lambda>row. map (\<lambda>name.
                   (let k = index_of name (columns df)
                    in if k < length row then row ! k else None)) names) (cells df)\<rparr>"

definition fillna :: "string \<Rightarrow> dataframe \<Rightarrow> dataframe" where
  "fillna v df =
     df\<lparr>cells := map (map (\<lambda>c. case c of None \<Rightarrow> Some v | Some text \<Rightarrow> Some text)) (cells df)\<rparr>"

text \<open>\<open>.values.tolist()\<close> of a table without missing cells.\<close>

definition values_tolist :: "dataframe \<Rightarrow> string list list" where
  "values_tolist df = map (map (\<lambda>c. case c of None \<Rightarrow> [] | Some text \<Rightarrow> text)) (cells df)"

text \<open>
  \<open>EbaySearcher.process_file\<close>. The result is the exception that leaves the method
  (\<open>None\<close>: it returns) and the application after it.
\<close>

definition process_file ::
  "(string \<Rightarrow> exn + dataframe) \<Rightarrow> string \<Rightarrow> app \<Rightarrow> exn option \<times> app" where
  "process_file read_excel file_path ap =
     (case read_excel file_path of
        Inr df \<Rightarrow>
          if ''Title'' \<notin> set (columns df) \<or> ''Author'' \<notin> set (columns df)
             \<or> ''ISBN'' \<notin> set (columns df)
          then (None, log_text ''Excel file must contain 'Title', 'Author', and 'ISBN' columns.'' ap)
          else
            (let d = fillna [] (select_columns [''Title'', ''Author'', ''ISBN''] df);
                 ap1 = ap\<lparr>data := values_tolist d\<rparr>
             in (None, log_text (''Loaded '' @ str_nat (length (data ap1))
                                  @ '' rows from the file.'') ap1))
      | Inl FileNotFoundError \<Rightarrow>
          (None, log_text (''File not found: '' @ file_path) ap)
      | Inl EmptyDataError \<Rightarrow>
          (None, log_text ''The file is empty. Please select a non-empty Excel file.'' ap)
      | Inl ValueError \<Rightarrow>
          (None, log_text ''Invalid file format. Please select a valid Excel file.'' ap)
      | Inl (KeyError m) \<Rightarrow>
          (None, log_text (''Data processing error: '' @ m) ap)
      | Inl (AttributeError m) \<Rightarrow>
          (None, log_text (''Data processing error: '' @ m) ap)
      | Inl (OtherException m) \<Rightarrow>
          (Some (OtherException m), log_text (''An unexpected error occurred: '' @ m) ap))"





section \<open>Observations and concrete inputs\<close>

text \<open>The URLs loaded and the result rows emitted, in order, in a list of events.\<close>

fun gets_of :: "event list \<Rightarrow> string list" where
  "gets_of [] = []"
| "gets_of (Driver_get url # evs) = url # gets_of evs"
| "gets_of (ev # evs) = gets_of evs"

fun results_of :: "event list \<Rightarrow> string list list" where
  "results_of [] = []"
| "results_of (Update_result r # evs) = r # results_of evs"
| "results_of (ev # evs) = results_of evs"

text \<open>What \<open>get_aggregate_value\<close> returns for an XPath on a page (lemma \<open>gav_fst\<close>).\<close>

definition field_text :: "page \<Rightarrow> string \<Rightarrow> string" where
  "field_text p xpath = (case metric p xpath of None \<Rightarrow> [] | Some text \<Rightarrow> strip text)"

definition no_results_page :: page where
  "no_results_page = \<lparr>aggregates = False, metric = (\<lambda>x. None)\<rparr>"

definition dune_page :: page where
  "dune_page = \<lparr>aggregates = True,
                 metric = (\<lambda>x. if x = xpath_avg_price then Some '' $12.50 '' else None)\<rparr>"

definition init_state :: state where
  "init_state = \<lparr>loaded = 0, drawn = 0, current = no_results_page, trace = []\<rparr>"

definition env_timeout :: env where
  "env_timeout = \<lparr>browser = (\<lambda>n url. no_results_page), rng = (\<lambda>n. 1 / 2),
                   running = (\<lambda>n. True)\<rparr>"

definition env_dune :: env where
  "env_dune = \<lparr>browser = (\<lambda>n url. dune_page), rng = (\<lambda>n. 1 / 2), running = (\<lambda>n. True)\<rparr>"


definition env_cancel :: env where
  "env_cancel = \<lparr>browser = (\<lambda>n url. no_results_page), rng = (\<lambda>n. 1 / 2),
                  running = (\<lambda>n. n < 1)\<rparr>"


definition init_app :: app where
  "init_app = \<lparr>data = [], log_window = [], result_table = []\<rparr>"


section \<open>Lemmas about the worker\<close>

lemma gets_of_append: "gets_of (xs @ ys) = gets_of xs @ gets_of ys"
  by (induction xs rule: gets_of.induct) simp_all

lemma results_of_append: "results_of (xs @ ys) = results_of xs @ results_of ys"
  by (induction xs rule: results_of.induct) simp_all


lemma gav_fst: "fst (get_aggregate_value e x st) = field_text (current st) x"
  by (simp add: get_aggregate_value_def field_text_def uniform_def Let_def
           split: option.splits)

lemma gav_current: "current (snd (get_aggregate_value e x st)) = current st"
  by (simp add: get_aggregate_value_def uniform_def Let_def emit_def log_message_def
           split: option.splits)

lemma gav_gets: "gets_of (trace (snd (get_aggregate_value e x st))) = gets_of (trace st)"
  by (simp add: get_aggregate_value_def uniform_def Let_def emit_def log_message_def
                gets_of_append split: option.splits)

lemma gav_results:
  "results_of (trace (snd (get_aggregate_value e x st))) = results_of (trace st)"
  by (simp add: get_aggregate_value_def uniform_def Let_def emit_def log_message_def
                results_of_append split: option.splits)

lemma gav_complete:
  "count_list (trace (snd (get_aggregate_value e x st))) Search_complete =
   count_list (trace st) Search_complete"
  by (simp add: get_aggregate_value_def uniform_def Let_def emit_def log_message_def
           split: option.splits)

lemma ps_fst:
  "fst (perform_search e q t a i st) =
   (let p = browser e (loaded st) (search_url q)
    in aggregates p \<and>
       (field_text p xpath_avg_price \<noteq> [] \<or> field_text p xpath_price_range \<noteq> [] \<or>
        field_text p xpath_avg_shipping \<noteq> [] \<or> field_text p xpath_total_sellers \<noteq> []))"
  apply (simp add: perform_search_def Let_def case_prod_beta gav_fst gav_current)
  apply (simp add: driver_get_def emit_def log_message_def)
  done

lemma ps_results:
  "results_of (trace (snd (perform_search e q t a i st))) =
   results_of (trace st) @
   (let p = browser e (loaded st) (search_url q);
        avg_price = field_text p xpath_avg_price;
        price_range = field_text p xpath_price_range;
        avg_shipping = field_text p xpath_avg_shipping;
        total_sellers = field_text p xpath_total_sellers
    in if aggregates p \<and>
          (avg_price \<noteq> [] \<or> price_range \<noteq> [] \<or> avg_shipping \<noteq> [] \<or> total_sellers \<noteq> [])
       then [[t, a, i, avg_price, price_range, avg_shipping, total_sellers]]
       else [])"
  apply (simp add: perform_search_def Let_def case_prod_beta gav_fst gav_current)
  apply (simp add: driver_get_def emit_def log_message_def results_of_append gav_results)
  done

lemma ps_gets:
  "gets_of (trace (snd (perform_search e q t a i st))) = gets_of (trace st) @ [search_url q]"
  apply (simp add: perform_search_def Let_def case_prod_beta)
  apply (simp add: driver_get_def emit_def log_message_def gets_of_append gav_gets)
  done

lemma ps_complete:
  "count_list (trace (snd (perform_search e q t a i st))) Search_complete =
   count_list (trace st) Search_complete"
  apply (simp add: perform_search_def Let_def case_prod_beta)
  apply (simp add: driver_get_def emit_def log_message_def gav_complete)
  done

lemma ps_timeout:
  "\<not> aggregates (browser e (loaded st) (search_url q)) \<Longrightarrow>
   perform_search e q t a i st =
   (False, st\<lparr>loaded := Suc (loaded st), current := browser e (loaded st) (search_url q),
              trace := trace st @ [Driver_get (search_url q),
                                   Log_message (''Navigating to URL: '' @ search_url q),
                                   Log_message (''No results found for '' @ q @ ''. Skipping.'')]\<rparr>)"
  by (simp add: perform_search_def Let_def driver_get_def emit_def log_message_def)

lemma re_complete:
  "count_list (trace (run_entry e en st)) Search_complete =
   count_list (trace st) Search_complete"
  apply (cases en)
  apply (simp add: run_entry_def Let_def case_prod_beta uniform_def emit_def ps_complete)
  apply (simp add: log_message_def emit_def)
  done



lemma rl_complete:
  "count_list (trace (run_loop e n entries st)) Search_complete =
   count_list (trace st) Search_complete"
  by (induction entries arbitrary: n st) (simp_all add: re_complete log_message_def emit_def)

lemma rl_running:
  "(\<forall>j<length entries. running e (n + j)) \<Longrightarrow>
   run_loop e n entries st = foldl (\<lambda>s en. run_entry e en s) st entries"
proof (induction entries arbitrary: n st)
  case Nil
  then show ?case by simp
next
  case (Cons en rest)
  from Cons.prems have r0: "running e n" by force
  have "\<forall>j<length rest. running e (Suc n + j)"
  proof (intro allI impI)
    fix j assume "j < length rest"
    then have "Suc j < length (en # rest)" by simp
    with Cons.prems have "running e (n + Suc j)" by blast
    then show "running e (Suc n + j)" by simp
  qed
  from Cons.IH [OF this] r0 show ?case by simp
qed

lemma rl_cancel:
  "N < length entries \<Longrightarrow> \<not> running e (n + N) \<Longrightarrow>
   \<exists>k\<le>N. (\<forall>j<k. running e (n + j)) \<and> \<not> running e (n + k) \<and>
     run_loop e n entries st = log_message ''Search cancelled.'' (run_loop e n (take k entries) st)"
proof (induction entries arbitrary: n N st)
  case Nil
  then show ?case by simp
next
  case (Cons en rest)
  show ?case
  proof (cases "running e n")
    case False
    then show ?thesis by (intro exI [of _ 0]) simp
  next
    case True
    with Cons.prems obtain M where N: "N = Suc M" by (cases N) auto
    with Cons.prems have "M < length rest" "\<not> running e (Suc n + M)" by simp_all
    from Cons.IH [OF this, of "run_entry e en st"] obtain k where
      k: "k \<le> M" "\<forall>j<k. running e (Suc n + j)" "\<not> running e (Suc n + k)"
         "run_loop e (Suc n) rest (run_entry e en st) =
          log_message ''Search cancelled.'' (run_loop e (Suc n) (take k rest) (run_entry e en st))"
      by blast
    have "\<forall>j<Suc k. running e (n + j)"
    proof (intro allI impI)
      fix j assume "j < Suc k"
      then show "running e (n + j)" using True k(2) by (cases j) auto
    qed
    then show ?thesis using True k N by (intro exI [of _ "Suc k"]) simp
  qed
qed

section \<open>Claims about the worker\<close>

text \<open>
  C2. An extraction attempt emits a result row if and only if the container appeared and at
  least one of the four extracted fields (average sold price, sold price range, average
  shipping, total sellers) is a non-empty string, and it returns success exactly then.
  With the container present and all four fields empty it returns failure and emits
  nothing; so it does when the container never appears.
\<close>

theorem perform_search_emits_iff_some_field:
  "(let p = browser e (loaded st) (search_url q);
        avg_price = field_text p xpath_avg_price;
        price_range = field_text p xpath_price_range;
        avg_shipping = field_text p xpath_avg_shipping;
        total_sellers = field_text p xpath_total_sellers;
        some_field = (avg_price \<noteq> [] \<or> price_range \<noteq> [] \<or> avg_shipping \<noteq> []
                      \<or> total_sellers \<noteq> [])
    in fst (perform_search e q t a i st) = (aggregates p \<and> some_field) \<and>
       results_of (trace (snd (perform_search e q t a i st))) =
         results_of (trace st) @
         (if aggregates p \<and> some_field
          then [[t, a, i, avg_price, price_range, avg_shipping, total_sellers]]
          else []))"
  by (simp add: ps_fst ps_results Let_def)

theorem perform_search_emits_iff_some_field_witness:
  "fst (perform_search env_dune ''Dune Frank Herbert'' ''Dune'' ''Frank Herbert'' [] init_state) \<and>
   results_of (trace (snd (perform_search env_dune ''Dune Frank Herbert'' ''Dune''
                             ''Frank Herbert'' [] init_state))) =
     [[''Dune'', ''Frank Herbert'', [], ''$12.50'', [], [], []]] \<and>
   \<not> fst (perform_search env_timeout ''Dune Frank Herbert'' ''Dune'' ''Frank Herbert'' []
            init_state) \<and>
   results_of (trace (snd (perform_search env_timeout ''Dune Frank Herbert'' ''Dune''
                             ''Frank Herbert'' [] init_state))) = []"
  using perform_search_emits_iff_some_field
          [of env_dune init_state "''Dune Frank Herbert''" "''Dune''" "''Frank Herbert''" "[]"]
        perform_search_emits_iff_some_field
          [of env_timeout init_state "''Dune Frank Herbert''" "''Dune''" "''Frank Herbert''" "[]"]
  by (simp add: Let_def env_dune_def env_timeout_def init_state_def dune_page_def
                no_results_page_def field_text_def strip_def isspace_def xpath_avg_price_def
                xpath_price_range_def xpath_avg_shipping_def xpath_total_sellers_def)

text \<open>
  C4. A row whose title, author and identifier are all empty only adds the log line
  "Skipping empty line.": no URL is loaded, no result row is emitted, no random pause is
  drawn or slept, and the loop goes on to the next row.
\<close>

theorem empty_row_skipped:
  "run_entry e ([], [], []) st = st\<lparr>trace := trace st @ [Log_message ''Skipping empty line.'']\<rparr>
   \<and> run_loop e n (([], [], []) # rest) st =
       (if running e n
        then run_loop e (Suc n) rest (st\<lparr>trace := trace st @ [Log_message ''Skipping empty line.'']\<rparr>)
        else log_message ''Search cancelled.'' st)"
  by (simp add: run_entry_def log_message_def emit_def)

theorem empty_row_skipped_witness:
  "trace (run env_timeout [([], [], [])] init_state) =
     [Log_message ''Skipping empty line.'', Search_complete]"
  using empty_row_skipped [of env_timeout init_state 0 "[]"]
  by (simp add: run_def emit_def env_timeout_def init_state_def)



text \<open>
  C6. The row \<open>("", "", "9780441013593")\<close> with the container missing on both loads: the
  first attempt queries the identifier and logs "No results found"; its failure triggers
  the second attempt, whose query is the empty title, a space and the empty author, that
  is one space; it logs "No results found" too. No result row is emitted, the row's
  pause follows, and the search completes.
\<close>

theorem isbn_only_row_container_timeout:
  assumes "running e 0"
    and "\<not> aggregates (browser e (loaded st) (search_url ''9780441013593''))"
    and "\<not> aggregates (browser e (Suc (loaded st)) (search_url '' ''))"
  shows "trace (run e [([], [], ''9780441013593'')] st) =
         trace st @
         [Log_message ''Processing: , , ISBN: 9780441013593'',
          Driver_get (search_url ''9780441013593''),
          Log_message (''Navigating to URL: '' @ search_url ''9780441013593''),
          Log_message ''No results found for 9780441013593. Skipping.'',
          Driver_get (search_url '' ''),
          Log_message (''Navigating to URL: '' @ search_url '' ''),
          Log_message ''No results found for  . Skipping.'',
          Log_sleeping (15 + (40 - 15) * rng e (drawn st)),
          Time_sleep (15 + (40 - 15) * rng e (drawn st)),
          Process_events,
          Search_complete]"
  using assms
  by (simp add: run_def run_entry_def Let_def ps_timeout uniform_def emit_def log_message_def)

theorem isbn_only_row_container_timeout_witness:
  "running env_timeout 0 \<and>
   \<not> aggregates (browser env_timeout (loaded init_state) (search_url ''9780441013593'')) \<and>
   \<not> aggregates (browser env_timeout (Suc (loaded init_state)) (search_url '' '')) \<and>
   trace (run env_timeout [([], [], ''9780441013593'')] init_state) =
         [Log_message ''Processing: , , ISBN: 9780441013593'',
          Driver_get (search_url ''9780441013593''),
          Log_message (''Navigating to URL: '' @ search_url ''9780441013593''),
          Log_message ''No results found for 9780441013593. Skipping.'',
          Driver_get (search_url '' ''),
          Log_message (''Navigating to URL: '' @ search_url '' ''),
          Log_message ''No results found for  . Skipping.'',
          Log_sleeping (55 / 2),
          Time_sleep (55 / 2),
          Process_events,
          Search_complete]"
proof -
  have h1: "running env_timeout 0" by (simp add: env_timeout_def)
  have h2: "\<not> aggregates (browser env_timeout (loaded init_state) (search_url ''9780441013593''))"
    by (simp add: env_timeout_def no_results_page_def)
  have h3: "\<not> aggregates (browser env_timeout (Suc (loaded init_state)) (search_url '' ''))"
    by (simp add: env_timeout_def no_results_page_def)
  have t: "trace init_state = []" "rng env_timeout (drawn init_state) = 1 / 2"
    by (simp_all add: init_state_def env_timeout_def)
  from isbn_only_row_container_timeout [OF h1 h2 h3] h1 h2 h3 t show ?thesis by simp
qed

text \<open>
  C1, as the code has it. For a row that is not skipped, the second attempt is made if and
  only if the first attempt failed, whatever the first query was; its query is always the
  title, a space and the author. So a row with an empty identifier whose first attempt
  fails loads the same title and author URL a second time.
\<close>

theorem second_attempt_iff_first_failed:
  assumes "\<not> (t = [] \<and> a = [] \<and> i = [])"
  shows "gets_of (trace (run_entry e (t, a, i) st)) =
         gets_of (trace st) @
         (let q = (if i \<noteq> [] then i else t @ '' '' @ a);
              st1 = log_message (''Processing: '' @ t @ '', '' @ a @ '', ISBN: '' @ i) st
          in if fst (perform_search e q t a i st1)
             then [search_url q]
             else [search_url q, search_url (t @ '' '' @ a)])"
  using assms
  apply (simp add: run_entry_def Let_def case_prod_beta uniform_def emit_def gets_of_append
                   ps_gets)
  apply (simp add: log_message_def emit_def gets_of_append)
  done

theorem second_attempt_iff_first_failed_witness:
  "\<not> (''Dune'' = [] \<and> ''Frank Herbert'' = [] \<and> ''9780441013593'' = []) \<and>
   gets_of (trace (run_entry env_timeout (''Dune'', ''Frank Herbert'', ''9780441013593'')
                     init_state)) =
     [search_url ''9780441013593'', search_url ''Dune Frank Herbert''] \<and>
   gets_of (trace (run_entry env_dune (''Dune'', ''Frank Herbert'', ''9780441013593'')
                     init_state)) =
     [search_url ''9780441013593'']"
  using second_attempt_iff_first_failed
          [of "''Dune''" "''Frank Herbert''" "''9780441013593''" env_timeout init_state]
        second_attempt_iff_first_failed
          [of "''Dune''" "''Frank Herbert''" "''9780441013593''" env_dune init_state]
  by (simp add: Let_def ps_fst log_message_def emit_def env_timeout_def env_dune_def
                init_state_def no_results_page_def dune_page_def field_text_def strip_def
                isspace_def xpath_avg_price_def)

text \<open>
  The claim C1 as stated fails on the row \<open>("Dune", "Frank Herbert", "")\<close> when the
  container never appears: the first query is already title and author, the first
  attempt fails, and a second load of the same URL follows.
\<close>

theorem second_attempt_counterexample:
  "\<not> fst (perform_search env_timeout ''Dune Frank Herbert'' ''Dune'' ''Frank Herbert'' []
            (log_message ''Processing: Dune, Frank Herbert, ISBN: '' init_state)) \<and>
   gets_of (trace (run env_timeout [(''Dune'', ''Frank Herbert'', [])] init_state)) =
     [search_url ''Dune Frank Herbert'', search_url ''Dune Frank Herbert'']"
  by (simp add: run_def run_entry_def Let_def ps_timeout uniform_def emit_def log_message_def
                env_timeout_def init_state_def no_results_page_def)

text \<open>
  C3. The signal "search complete" is emitted exactly once by every run. If the flag is
  found cleared at the top of iteration \<open>N\<close> or earlier, the run is the processing of
  the first \<open>k \<le> N\<close> rows only, then the log line "Search cancelled.", then "search
  complete": nothing is loaded for row \<open>N\<close> or a later row. If the flag is never found
  cleared, the run is the processing of all rows, then "search complete".
\<close>

theorem search_complete_once_cancel_stops:
  "count_list (trace (run e entries st)) Search_complete =
     Suc (count_list (trace st) Search_complete)
   \<and> (N < length entries \<and> \<not> running e N \<longrightarrow>
        (\<exists>k\<le>N. trace (run e entries st) =
                   trace (foldl (\<lambda>s en. run_entry e en s) st (take k entries))
                   @ [Log_message ''Search cancelled.'', Search_complete]))
   \<and> ((\<forall>j<length entries. running e j) \<longrightarrow>
        trace (run e entries st) =
          trace (foldl (\<lambda>s en. run_entry e en s) st entries) @ [Search_complete])"
proof (intro conjI impI)
  show "count_list (trace (run e entries st)) Search_complete =
        Suc (count_list (trace st) Search_complete)"
    by (simp add: run_def emit_def rl_complete)
next
  assume h: "N < length entries \<and> \<not> running e N"
  then have "N < length entries" "\<not> running e (0 + N)" by simp_all
  from rl_cancel [OF this, of st] obtain k where
    k: "k \<le> N" "\<forall>j<k. running e (0 + j)"
       "run_loop e 0 entries st =
        log_message ''Search cancelled.'' (run_loop e 0 (take k entries) st)"
    by blast
  from k(1) h have len: "length (take k entries) = k" by simp
  from k(2) len have "\<forall>j<length (take k entries). running e (0 + j)" by simp
  from rl_running [OF this]
  have "run_loop e 0 (take k entries) st =
        foldl (\<lambda>s en. run_entry e en s) st (take k entries)" .
  with k(3) have "trace (run e entries st) =
                   trace (foldl (\<lambda>s en. run_entry e en s) st (take k entries))
                   @ [Log_message ''Search cancelled.'', Search_complete]"
    by (simp add: run_def emit_def log_message_def)
  with k(1) show "\<exists>k\<le>N. trace (run e entries st) =
                   trace (foldl (\<lambda>s en. run_entry e en s) st (take k entries))
                   @ [Log_message ''Search cancelled.'', Search_complete]"
    by blast
next
  assume "\<forall>j<length entries. running e j"
  then have "\<forall>j<length entries. running e (0 + j)" by simp
  from rl_running [OF this]
  show "trace (run e entries st) =
          trace (foldl (\<lambda>s en. run_entry e en s) st entries) @ [Search_complete]"
    by (simp add: run_def emit_def)
qed

theorem search_complete_once_cancel_stops_witness:
  "count_list (trace (run env_cancel [([], [], ''9780441013593''), (''Dune'', ''Frank Herbert'', [])]
                        init_state)) Search_complete = 1 \<and>
   1 < length [([], [], ''9780441013593''), (''Dune'', ''Frank Herbert'', [])] \<and>
   \<not> running env_cancel 1 \<and>
   (\<exists>k\<le>1. trace (run env_cancel [([], [], ''9780441013593''), (''Dune'', ''Frank Herbert'', [])]
                    init_state) =
            trace (foldl (\<lambda>s en. run_entry env_cancel en s) init_state
                     (take k [([], [], ''9780441013593''), (''Dune'', ''Frank Herbert'', [])]))
            @ [Log_message ''Search cancelled.'', Search_complete]) \<and>
   gets_of (trace (run env_cancel [([], [], ''9780441013593''), (''Dune'', ''Frank Herbert'', [])]
                     init_state)) =
     [search_url ''9780441013593'', search_url '' '']"
proof -
  let ?entries = "[([], [], ''9780441013593''), (''Dune'', ''Frank Herbert'', [])]"
  have h: "1 < length ?entries \<and> \<not> running env_cancel 1"
    by (simp add: env_cancel_def)
  have c: "count_list (trace init_state) Search_complete = 0"
    by (simp add: init_state_def)
  have g: "gets_of (trace (run env_cancel ?entries init_state)) =
           [search_url ''9780441013593'', search_url '' '']"
    by (simp add: run_def run_entry_def Let_def ps_timeout uniform_def emit_def
                  log_message_def env_cancel_def init_state_def no_results_page_def)
  from search_complete_once_cancel_stops [of env_cancel ?entries init_state 1] h c g
  show ?thesis by simp
qed



section \<open>Claims about loading and exporting\<close>








text \<open>
  C9. Whenever \<open>process_file\<close> fails (the reader raises, whatever the exception, or the
  table lacks a required column) the loaded rows are what they were before; the result
  table is untouched too. Contrapositively, the rows change only when the file is read
  and has the three columns.
\<close>

theorem process_file_failure_keeps_data:
  assumes "(\<exists>ex. read_excel file_path = Inl ex) \<or>
           (\<exists>df. read_excel file_path = Inr df \<and>
                 \<not> (''Title'' \<in> set (columns df) \<and> ''Author'' \<in> set (columns df)
                    \<and> ''ISBN'' \<in> set (columns df)))"
  shows "data (snd (process_file read_excel file_path ap)) = data ap \<and>
         result_table (snd (process_file read_excel file_path ap)) = result_table ap"
  using assms
  by (auto simp: process_file_def log_text_def split: exn.splits)

theorem process_file_failure_keeps_data_witness:
  "data (snd (process_file (\<lambda>p. Inl (OtherException ''Permission denied'')) ''books.xlsx''
               (init_app\<lparr>data := [[''Dune'', ''Frank Herbert'', []]]\<rparr>))) =
     [[''Dune'', ''Frank Herbert'', []]] \<and>
   data (snd (process_file (\<lambda>p. Inr \<lparr>columns = [''Title'', ''Author''],
                                      cells = [[Some ''Emma'', Some ''Jane Austen'']]\<rparr>)
               ''books.xlsx'' (init_app\<lparr>data := [[''Dune'', ''Frank Herbert'', []]]\<rparr>))) =
     [[''Dune'', ''Frank Herbert'', []]] \<and>
   data (snd (process_file (\<lambda>p. Inr \<lparr>columns = [''ISBN'', ''Title'', ''Author''],
                                      cells = [[None, Some ''Emma'', Some ''Jane Austen'']]\<rparr>)
               ''books.xlsx'' (init_app\<lparr>data := [[''Dune'', ''Frank Herbert'', []]]\<rparr>))) =
     [[''Emma'', ''Jane Austen'', []]]"
proof -
  let ?ap = "init_app\<lparr>data := [[''Dune'', ''Frank Herbert'', []]]\<rparr>"
  let ?r1 = "\<lambda>p::string. (Inl (OtherException ''Permission denied'') :: exn + dataframe)"
  let ?df = "\<lparr>columns = [''Title'', ''Author''], cells = [[Some ''Emma'', Some ''Jane Austen'']]\<rparr>"
  let ?r2 = "\<lambda>p::string. (Inr ?df :: exn + dataframe)"
  have h1: "(\<exists>ex. ?r1 ''books.xlsx'' = Inl ex) \<or>
           (\<exists>df. ?r1 ''books.xlsx'' = Inr df \<and>
                 \<not> (''Title'' \<in> set (columns df) \<and> ''Author'' \<in> set (columns df)
                    \<and> ''ISBN'' \<in> set (columns df)))"
    by simp
  have h2: "(\<exists>ex. ?r2 ''books.xlsx'' = Inl ex) \<or>
           (\<exists>df. ?r2 ''books.xlsx'' = Inr df \<and>
                 \<not> (''Title'' \<in> set (columns df) \<and> ''Author'' \<in> set (columns df)
                    \<and> ''ISBN'' \<in> set (columns df)))"
    by simp
  have ok: "data (snd (process_file (\<lambda>p. Inr \<lparr>columns = [''ISBN'', ''Title'', ''Author''],
                                      cells = [[None, Some ''Emma'', Some ''Jane Austen'']]\<rparr>)
               ''books.xlsx'' ?ap)) = [[''Emma'', ''Jane Austen'', []]]"
    by (simp add: process_file_def log_text_def values_tolist_def fillna_def
                  select_columns_def Let_def)
  from process_file_failure_keeps_data [where read_excel = ?r1 and file_path = "''books.xlsx''"
                                         and ap = ?ap]
       process_file_failure_keeps_data [where read_excel = ?r2 and file_path = "''books.xlsx''"
                                         and ap = ?ap]
       h1 h2 ok
  show ?thesis by (simp add: init_app_def)
qed




end
